theory Spec2Isabelle
  imports
    Complex_Main
    "HOL-Library.AList"
    "HOL-Library.Sublist"
    "HOL-Library.Char_ord"
    "HOL-Library.List_Lexorder"
begin

section \<open>The mood engine of \<^verbatim>\<open>ml-service/main.py\<close>\<close>

text \<open>
  The embedding follows \<^verbatim>\<open>src/ml-service/main.py\<close>. Two conventions hold
  throughout.

  \<^item> A Python \<^verbatim>\<open>float\<close> is modelled as a \<^typ>\<open>real\<close>: the arithmetic is the exact
    one, without rounding, overflow, infinities or NaN. A Python \<^verbatim>\<open>int\<close> is an
    \<^typ>\<open>int\<close>.
  \<^item> A Python \<^verbatim>\<open>dict\<close> keeps its keys in insertion order, and \<^verbatim>\<open>max\<close>
    and \<^verbatim>\<open>sort\<close> depend on that order. A dict is therefore an association list
    in iteration order; a well-formed dict has distinct keys.
\<close>

subsection \<open>Dictionaries and errors\<close>

type_synonym 'v dict = "(string \<times> 'v) list"

datatype py_error = ValueError | KeyError | HTTPException nat

text \<open>\<^verbatim>\<open>d.get(k, default)\<close>\<close>

definition dict_get :: "'v dict \<Rightarrow> string \<Rightarrow> 'v \<Rightarrow> 'v" where
  "dict_get d k dflt = (case map_of d k of None \<Rightarrow> dflt | Some v \<Rightarrow> v)"

text \<open>\<^verbatim>\<open>d[k]\<close>, which raises \<^verbatim>\<open>KeyError\<close> on a missing key.\<close>

definition dict_index :: "'v dict \<Rightarrow> string \<Rightarrow> py_error + 'v" where
  "dict_index d k = (case map_of d k of None \<Rightarrow> Inl KeyError | Some v \<Rightarrow> Inr v)"

text \<open>
  \<^verbatim>\<open>d[k] = v\<close>: an existing key keeps its position, a new key goes to the end.
\<close>

definition dict_set :: "'v dict \<Rightarrow> string \<Rightarrow> 'v \<Rightarrow> 'v dict" where
  "dict_set d k v = AList.update k v d"

text \<open>\<^verbatim>\<open>sum(d.values())\<close>\<close>

definition sum_values :: "real dict \<Rightarrow> real" where
  "sum_values d = sum_list (map snd d)"

text \<open>
  \<^verbatim>\<open>max(d, key=d.get)\<close>. The builtin raises \<^verbatim>\<open>ValueError\<close> on an empty
  iterable; otherwise it walks the keys in iteration order and replaces the current best
  only by a key whose value is strictly greater, so the first key of maximal value wins.
  The walk is over the items: for a dict, \<^verbatim>\<open>d.get(k)\<close> of an iterated key is the
  value stored with it.
\<close>

fun max_item :: "string \<times> real \<Rightarrow> real dict \<Rightarrow> string \<times> real" where
  "max_item best [] = best"
| "max_item best (item # items) =
     max_item (if snd item > snd best then item else best) items"

definition py_max_key :: "real dict \<Rightarrow> py_error + string" where
  "py_max_key d = (case d of [] \<Rightarrow> Inl ValueError | item # items \<Rightarrow> Inr (fst (max_item item items)))"

text \<open>
  The normalisation step written twice in the source (lines 239-241 and 282-284):
  \<^verbatim>\<open>total = sum(d.values()); if total > 0: d = {k: v/total for k, v in d.items()}\<close>
\<close>

definition normalize_values :: "real dict \<Rightarrow> real dict" where
  "normalize_values d =
     (let total = sum_values d
      in if total > 0 then map (\<lambda>(k, v). (k, v / total)) d else d)"

subsection \<open>\<^verbatim>\<open>combine_emotion_sentiment\<close>\<close>

text \<open>
  The loop \<^verbatim>\<open>for emotion in [...]: if emotion in combined: combined[emotion] *= 1.2\<close>
\<close>

fun boost :: "string list \<Rightarrow> real dict \<Rightarrow> real dict" where
  "boost [] combined = combined"
| "boost (emotion # rest) combined =
     boost rest
       (case map_of combined emotion of
          None \<Rightarrow> combined
        | Some v \<Rightarrow> dict_set combined emotion (v * 1.2))"

text \<open>Lines 224-236: the copy of the emotions after the sentiment adjustment.\<close>

definition sentiment_adjust :: "real dict \<Rightarrow> real dict \<Rightarrow> real dict" where
  "sentiment_adjust emotions sentiment =
     (if dict_get sentiment ''POSITIVE'' 0 > 0.5
        then boost [''joy'', ''love'', ''optimism''] emotions
      else if dict_get sentiment ''NEGATIVE'' 0 > 0.5
        then boost [''sadness'', ''anger'', ''fear''] emotions
      else emotions)"

definition combine_emotion_sentiment :: "real dict \<Rightarrow> real dict \<Rightarrow> real dict" where
  "combine_emotion_sentiment emotions sentiment =
     normalize_values (sentiment_adjust emotions sentiment)"

subsection \<open>\<^verbatim>\<open>emotion_to_mood_score\<close>\<close>

definition emotion_scores :: "real dict" where
  "emotion_scores =
     [(''joy'', 9), (''love'', 8), (''optimism'', 7), (''neutral'', 5),
      (''sadness'', 3), (''anger'', 2), (''fear'', 2), (''surprise'', 6)]"

definition emotion_to_mood_score :: "string \<Rightarrow> real \<Rightarrow> real" where
  "emotion_to_mood_score emotion confidence =
     (let base_score = dict_get emotion_scores emotion 5;
          adjusted_score = base_score + (confidence - 0.5) * 2
      in max 1 (min 10 adjusted_score))"

subsection \<open>\<^verbatim>\<open>audio_features_to_emotions\<close>\<close>

text \<open>
  Lines 265-279: the dict before normalisation. The update
  \<^verbatim>\<open>emotions['joy'] += danceability * 0.3\<close> reads \<^verbatim>\<open>emotions['joy']\<close> first.
\<close>

definition raw_emotions :: "real dict \<Rightarrow> py_error + real dict" where
  "raw_emotions features =
     (let emotions0 = [];
          valence = dict_get features ''valence'' 0.5;
          emotions1 = dict_set emotions0 ''joy'' valence;
          emotions2 = dict_set emotions1 ''sadness'' (1 - valence);
          energy = dict_get features ''energy'' 0.5;
          emotions3 = dict_set emotions2 ''anger'' (energy * 0.7);
          emotions4 = dict_set emotions3 ''fear'' (energy * 0.3);
          danceability = dict_get features ''danceability'' 0.5
      in case dict_index emotions4 ''joy'' of
           Inl e \<Rightarrow> Inl e
         | Inr joy \<Rightarrow> Inr (dict_set emotions4 ''joy'' (joy + danceability * 0.3)))"

definition audio_features_to_emotions :: "real dict \<Rightarrow> py_error + real dict" where
  "audio_features_to_emotions features =
     (case raw_emotions features of
        Inl e \<Rightarrow> Inl e
      | Inr emotions \<Rightarrow> Inr (normalize_values emotions))"

subsection \<open>Dominant emotion and confidence\<close>

text \<open>
  Lines 135-136 and 162-163:
  \<^verbatim>\<open>dominant_emotion = max(emotions, key=emotions.get)\<close>,
  \<^verbatim>\<open>confidence = emotions[dominant_emotion]\<close>.
\<close>

definition find_dominant_emotion :: "real dict \<Rightarrow> py_error + string \<times> real" where
  "find_dominant_emotion emotions =
     (case py_max_key emotions of
        Inl e \<Rightarrow> Inl e
      | Inr dominant_emotion \<Rightarrow>
          (case dict_index emotions dominant_emotion of
             Inl e \<Rightarrow> Inl e
           | Inr confidence \<Rightarrow> Inr (dominant_emotion, confidence)))"

subsection \<open>The catalogue and \<^verbatim>\<open>get_mood_based_recommendations\<close>\<close>

text \<open>
  A catalogue entry. The field \<^verbatim>\<open>id\<close> is named \<open>id_of\<close> here.
  \<^verbatim>\<open>audio_features\<close> is itself a dict, read with \<^verbatim>\<open>[...]\<close>.
\<close>

record track_data =
  id_of :: string
  title :: string
  artist :: string
  genre_tags :: "string list"
  mood_tags :: "string list"
  audio_features :: "real dict"

text \<open>
  An entry of \<^verbatim>\<open>scored_tracks\<close>. The keys \<^verbatim>\<open>title\<close> and \<^verbatim>\<open>artist\<close> are
  named \<open>rec_title\<close> and \<open>rec_artist\<close>. The key \<^verbatim>\<open>reason\<close>, a message that
  prints the matching tags in the iteration order of a Python \<^verbatim>\<open>set\<close>, is left out.
\<close>

record scored_track =
  track_id :: string
  rec_title :: string
  rec_artist :: string
  score :: real

definition load_music_features :: "track_data dict" where
  "load_music_features =
     [(''sample_track_1'',
       \<lparr>id_of = ''sample_track_1'', title = ''Calm Song'', artist = ''Artist 1'',
        genre_tags = [''ambient'', ''calm''], mood_tags = [''calm'', ''peaceful''],
        audio_features =
          [(''tempo'', 60), (''valence'', 0.8), (''energy'', 0.3), (''danceability'', 0.2)]\<rparr>),
      (''sample_track_2'',
       \<lparr>id_of = ''sample_track_2'', title = ''Energetic Song'', artist = ''Artist 2'',
        genre_tags = [''electronic'', ''dance''], mood_tags = [''energetic'', ''happy''],
        audio_features =
          [(''tempo'', 128), (''valence'', 0.9), (''energy'', 0.8), (''danceability'', 0.9)]\<rparr>)]"

text \<open>
  \<^verbatim>\<open>compute_music_embeddings\<close>: one feature vector per track, in the catalogue's
  order, and the list of the track ids.
\<close>

fun compute_music_embeddings ::
  "track_data dict \<Rightarrow> py_error + real list list \<times> string list" where
  "compute_music_embeddings [] = Inr ([], [])"
| "compute_music_embeddings ((tid, td) # rest) =
     (case dict_index (audio_features td) ''tempo'' of
        Inl e \<Rightarrow> Inl e
      | Inr tempo \<Rightarrow>
     (case dict_index (audio_features td) ''valence'' of
        Inl e \<Rightarrow> Inl e
      | Inr valence \<Rightarrow>
     (case dict_index (audio_features td) ''energy'' of
        Inl e \<Rightarrow> Inl e
      | Inr energy \<Rightarrow>
     (case dict_index (audio_features td) ''danceability'' of
        Inl e \<Rightarrow> Inl e
      | Inr danceability \<Rightarrow>
     (case compute_music_embeddings rest of
        Inl e \<Rightarrow> Inl e
      | Inr (embeddings, track_ids) \<Rightarrow>
          Inr ([tempo / 200, valence, energy, danceability] # embeddings,
               tid # track_ids))))))"

definition emotion_to_mood_tags :: "string list dict" where
  "emotion_to_mood_tags =
     [(''joy'', [''happy'', ''uplifting'', ''energetic'']),
      (''sadness'', [''melancholic'', ''introspective'', ''calm'']),
      (''anger'', [''calm'', ''peaceful'', ''meditative'']),
      (''fear'', [''calm'', ''peaceful'', ''ambient'']),
      (''love'', [''romantic'', ''warm'', ''uplifting'']),
      (''surprise'', [''energetic'', ''uplifting'', ''happy''])]"

text \<open>Lines 394-405: the score of one track.\<close>

definition score_track :: "string \<Rightarrow> string list \<Rightarrow> track_data \<Rightarrow> py_error + real" where
  "score_track dominant_emotion target_mood_tags td =
     (let score0 = 0;
          matching_tags = set (mood_tags td) \<inter> set target_mood_tags;
          score1 = score0 + real (card matching_tags) * 0.5
      in if dominant_emotion = ''joy'' then
           (case dict_index (audio_features td) ''valence'' of
              Inl e \<Rightarrow> Inl e
            | Inr valence \<Rightarrow>
                (case dict_index (audio_features td) ''energy'' of
                   Inl e \<Rightarrow> Inl e
                 | Inr energy \<Rightarrow> Inr (score1 + valence * 0.3 + energy * 0.2)))
         else if dominant_emotion = ''sadness'' then
           (case dict_index (audio_features td) ''valence'' of
              Inl e \<Rightarrow> Inl e
            | Inr valence \<Rightarrow>
                (case dict_index (audio_features td) ''energy'' of
                   Inl e \<Rightarrow> Inl e
                 | Inr energy \<Rightarrow> Inr (score1 + (1 - valence) * 0.3 + (1 - energy) * 0.2)))
         else Inr score1)"

text \<open>
  The loop of lines 392-413 over \<^verbatim>\<open>music_features.items()\<close>: the entries are
  appended in the catalogue's order, and the first track that raises ends the loop.
\<close>

fun score_tracks ::
  "string \<Rightarrow> string list \<Rightarrow> track_data dict \<Rightarrow> py_error + scored_track list" where
  "score_tracks dominant_emotion target_mood_tags [] = Inr []"
| "score_tracks dominant_emotion target_mood_tags ((tid, td) # rest) =
     (case score_track dominant_emotion target_mood_tags td of
        Inl e \<Rightarrow> Inl e
      | Inr s \<Rightarrow>
          (case score_tracks dominant_emotion target_mood_tags rest of
             Inl e \<Rightarrow> Inl e
           | Inr scored \<Rightarrow>
               Inr (\<lparr>track_id = tid, rec_title = title td, rec_artist = artist td,
                     score = s\<rparr> # scored)))"

text \<open>
  \<^verbatim>\<open>xs.sort(key=lambda x: x['score'], reverse=True)\<close>: Python's sort is stable also
  with \<^verbatim>\<open>reverse=True\<close>, so entries of equal score keep their order.
\<close>

definition sort_by_score :: "scored_track list \<Rightarrow> scored_track list" where
  "sort_by_score xs = sort_key (\<lambda>x. - score x) xs"

text \<open>
  \<^verbatim>\<open>xs[:limit]\<close>: a negative bound counts from the end, and a bound beyond either
  end is cut to it.
\<close>

definition slice_to :: "'a list \<Rightarrow> int \<Rightarrow> 'a list" where
  "slice_to xs limit =
     (if 0 \<le> limit then take (nat limit) xs
      else take (nat (int (length xs) + limit)) xs)"

text \<open>The global \<^verbatim>\<open>music_features\<close> is a parameter; \<open>None\<close> is Python's \<^verbatim>\<open>None\<close>.\<close>

definition get_mood_based_recommendations ::
  "track_data dict option \<Rightarrow> real dict \<Rightarrow> int \<Rightarrow> py_error + scored_track list" where
  "get_mood_based_recommendations music_features mood_emotions limit =
     (case music_features of
        None \<Rightarrow> Inr []
      | Some catalogue \<Rightarrow>
          (case py_max_key mood_emotions of
             Inl e \<Rightarrow> Inl e
           | Inr dominant_emotion \<Rightarrow>
               (let target_mood_tags =
                      dict_get emotion_to_mood_tags dominant_emotion [''neutral'']
                in case score_tracks dominant_emotion target_mood_tags catalogue of
                     Inl e \<Rightarrow> Inl e
                   | Inr scored_tracks \<Rightarrow> Inr (slice_to (sort_by_score scored_tracks) limit))))"

subsection \<open>The endpoints\<close>

text \<open>
  The request and response models; their fields carry a prefix. Every endpoint wraps its
  body in \<^verbatim>\<open>try: ... except Exception as e: raise HTTPException(status_code=500)\<close>,
  which also catches the \<^verbatim>\<open>HTTPException\<close> with status 503 raised inside the body.
  The \<^verbatim>\<open>reasoning\<close> of a recommendation response prints the keys of the request's
  \<^verbatim>\<open>mood_emotions\<close>; the model keeps the keys.
\<close>

record MusicRecommendationRequest =
  req_user_id :: string
  req_mood_emotions :: "real dict"
  req_limit :: int

record MusicRecommendationResponse =
  resp_recommendations :: "scored_track list"
  resp_model_version :: string
  resp_reasoning :: "string list"

definition recommend_music ::
  "track_data dict option \<Rightarrow> 'e option \<Rightarrow> MusicRecommendationRequest
     \<Rightarrow> py_error + MusicRecommendationResponse" where
  "recommend_music music_features music_embeddings request =
     (if music_features = None \<or> music_embeddings = None then Inl (HTTPException 500)
      else
        (case get_mood_based_recommendations music_features
                (req_mood_emotions request) (req_limit request) of
           Inl e \<Rightarrow> Inl (HTTPException 500)
         | Inr recommendations \<Rightarrow>
             Inr \<lparr>resp_recommendations = recommendations,
                  resp_model_version = ''1.0.0'',
                  resp_reasoning = map fst (req_mood_emotions request)\<rparr>))"

record AudioMoodResponse =
  amr_emotions :: "real dict"
  amr_dominant_emotion :: string
  amr_confidence :: real

definition analyze_audio_mood :: "real dict \<Rightarrow> py_error + AudioMoodResponse" where
  "analyze_audio_mood audio_features_in =
     (case audio_features_to_emotions audio_features_in of
        Inl e \<Rightarrow> Inl (HTTPException 500)
      | Inr emotions \<Rightarrow>
          (case find_dominant_emotion emotions of
             Inl e \<Rightarrow> Inl (HTTPException 500)
           | Inr (dominant_emotion, confidence) \<Rightarrow>
               Inr \<lparr>amr_emotions = emotions,
                    amr_dominant_emotion = dominant_emotion,
                    amr_confidence = confidence\<rparr>))"

record MoodAnalysisResponse =
  mar_emotions :: "real dict"
  mar_dominant_emotion :: string
  mar_confidence :: real
  mar_mood_score :: real

text \<open>
  \<^verbatim>\<open>{result['label']: result['score'] for result in results}\<close>: a repeated label
  keeps its first position and takes the last score.
\<close>

definition dict_of_results :: "(string \<times> real) list \<Rightarrow> real dict" where
  "dict_of_results results = foldl (\<lambda>d (label, sc). dict_set d label sc) [] results"

text \<open>
  The classifiers are parameters: a loaded pipeline maps a text to its list of
  label and score pairs.
\<close>

definition analyze_text_mood ::
  "(string \<Rightarrow> (string \<times> real) list) option \<Rightarrow> (string \<Rightarrow> (string \<times> real) list) option
     \<Rightarrow> string \<Rightarrow> py_error + MoodAnalysisResponse" where
  "analyze_text_mood emotion_pipeline sentiment_pipeline text_in =
     (case (emotion_pipeline, sentiment_pipeline) of
        (Some ep, Some sp) \<Rightarrow>
          (let emotions = dict_of_results (ep text_in);
               sentiment_scores = dict_of_results (sp text_in);
               combined_emotions = combine_emotion_sentiment emotions sentiment_scores
           in case find_dominant_emotion combined_emotions of
                Inl e \<Rightarrow> Inl (HTTPException 500)
              | Inr (dominant_emotion, confidence) \<Rightarrow>
                  Inr \<lparr>mar_emotions = combined_emotions,
                       mar_dominant_emotion = dominant_emotion,
                       mar_confidence = confidence,
                       mar_mood_score = emotion_to_mood_score dominant_emotion confidence\<rparr>)
      | _ \<Rightarrow> Inl (HTTPException 500))"

subsection \<open>Well-formed catalogues\<close>

text \<open>
  Every track of the catalogue holds the two audio features that the scoring reads with
  \<^verbatim>\<open>audio_features['valence']\<close> and \<^verbatim>\<open>audio_features['energy']\<close>.
\<close>

definition has_audio :: "track_data dict \<Rightarrow> bool" where
  "has_audio catalogue =
     list_all (\<lambda>(tid, td). ''valence'' \<in> fst ` set (audio_features td) \<and>
                        ''energy'' \<in> fst ` set (audio_features td)) catalogue"

subsection \<open>The score table and the clamp as the specification words them\<close>

text \<open>
  The base-score table of the specification, label by label, with 5 for every other
  label, and the clamp of a value to an interval.
\<close>

definition spec_base :: "string \<Rightarrow> real" where
  "spec_base label =
     (if label = ''joy'' then 9 else if label = ''love'' then 8
      else if label = ''optimism'' then 7 else if label = ''surprise'' then 6
      else if label = ''neutral'' then 5 else if label = ''sadness'' then 3
      else if label = ''anger'' then 2 else if label = ''fear'' then 2 else 5)"

definition spec_clamp :: "real \<Rightarrow> real \<Rightarrow> real \<Rightarrow> real" where
  "spec_clamp x lo hi = (if x < lo then lo else if hi < x then hi else x)"

text \<open>
  The audio term of a track's score as the specification words it: defined for joy and
  for sadness, 0 for every other dominant emotion.
\<close>

definition spec_audio_score :: "string \<Rightarrow> real \<Rightarrow> real \<Rightarrow> real" where
  "spec_audio_score dominant valence energy =
     (if dominant = ''joy'' then valence * 0.3 + energy * 0.2
      else if dominant = ''sadness'' then (1 - valence) * 0.3 + (1 - energy) * 0.2
      else 0)"

section \<open>Properties\<close>

subsection \<open>Normalisation\<close>



lemma keys_normalize_values: "map fst (normalize_values d) = map fst d"
  by (auto simp: normalize_values_def Let_def)

subsection \<open>Fusion of emotions and sentiment\<close>

lemma keys_dict_set_present:
  "map_of d k = Some v \<Longrightarrow> map fst (dict_set d k w) = map fst d"
  by (simp add: dict_set_def update_keys map_of_eq_None_iff [symmetric])

lemma keys_boost: "map fst (boost es d) = map fst d"
  by (induction es arbitrary: d) (auto simp: keys_dict_set_present split: option.splits)

lemma keys_sentiment_adjust: "map fst (sentiment_adjust E S) = map fst E"
  by (simp add: sentiment_adjust_def keys_boost del: boost.simps)

text \<open>
  C10. The distribution returned by \<^const>\<open>combine_emotion_sentiment\<close> has the labels
  of the input emotion distribution, in the same order: no label is added (none of the
  sentiment's either) and none is removed.
\<close>

theorem fusion_keeps_labels:
  "map fst (combine_emotion_sentiment E S) = map fst E \<and>
   dom (map_of (combine_emotion_sentiment E S)) = dom (map_of E)"
proof -
  have k: "map fst (combine_emotion_sentiment E S) = map fst E"
    by (simp add: combine_emotion_sentiment_def keys_normalize_values keys_sentiment_adjust)
  have "fst ` set (combine_emotion_sentiment E S) = fst ` set E"
    using arg_cong [OF k, of set] by simp
  then show ?thesis using k by (simp add: dom_map_of_conv_image_fst)
qed

subsection \<open>Mood score\<close>

lemma base_score_table: "dict_get emotion_scores label 5 = spec_base label"
  by (simp add: dict_get_def emotion_scores_def spec_base_def)

text \<open>
  C4. For every label and every confidence, \<^const>\<open>emotion_to_mood_score\<close> returns
  the base score of the label (5 for a label outside the table) plus
  \<open>(confidence - 0.5) * 2\<close>, clamped to the interval from 1 to 10; the result lies
  in that interval.
\<close>

theorem mood_score_formula:
  "emotion_to_mood_score label confidence =
     spec_clamp (spec_base label + (confidence - 0.5) * 2) 1 10 \<and>
   1 \<le> emotion_to_mood_score label confidence \<and>
   emotion_to_mood_score label confidence \<le> 10"
  by (simp add: emotion_to_mood_score_def base_score_table spec_clamp_def Let_def
      max_def min_def)

subsection \<open>Emotions from audio features\<close>





subsection \<open>Dominant emotion\<close>

text \<open>
  The item kept by \<^const>\<open>max_item\<close> splits the items: every value before it is
  strictly smaller, every value after it is at most as large.
\<close>

lemma max_item_split:
  "\<exists>pre post. best # items = pre @ max_item best items # post \<and>
     (\<forall>x\<in>set pre. snd x < snd (max_item best items)) \<and>
     (\<forall>x\<in>set post. snd x \<le> snd (max_item best items))"
proof (induction items arbitrary: best)
  case Nil
  show ?case by (intro exI [of _ "[]"]) simp
next
  case (Cons item items)
  show ?case
  proof (cases "snd item > snd best")
    case True
    define m where "m = max_item item items"
    have r: "max_item best (item # items) = m" using True by (simp add: m_def)
    from Cons.IH [of item] obtain pre post where
      split: "item # items = pre @ m # post"
      and lt: "\<forall>x\<in>set pre. snd x < snd m"
      and le: "\<forall>x\<in>set post. snd x \<le> snd m"
      unfolding m_def by blast
    have "item \<in> set (pre @ m # post)" using split by (metis list.set_intros(1))
    then have "snd item \<le> snd m" using lt le by auto
    then have "\<forall>x\<in>set (best # pre). snd x < snd m" using True lt by auto
    moreover have "best # item # items = (best # pre) @ m # post" using split by simp
    ultimately show ?thesis unfolding r using le by blast
  next
    case False
    define m where "m = max_item best items"
    have r: "max_item best (item # items) = m" using False by (simp add: m_def)
    from Cons.IH [of best] obtain pre post where
      split: "best # items = pre @ m # post"
      and lt: "\<forall>x\<in>set pre. snd x < snd m"
      and le: "\<forall>x\<in>set post. snd x \<le> snd m"
      unfolding m_def by blast
    show ?thesis
    proof (cases pre)
      case Nil
      then have "best = m" "items = post" using split by auto
      then have "best # item # items = [] @ m # (item # post)"
        and "\<forall>x\<in>set (item # post). snd x \<le> snd m"
        using False le by auto
      then show ?thesis unfolding r by (metis empty_iff list.set(1))
    next
      case (Cons p pre')
      then have "p = best" "items = pre' @ m # post" using split by auto
      then have "best # item # items = (best # item # pre') @ m # post"
        and "\<forall>x\<in>set (best # item # pre'). snd x < snd m"
        using Cons False lt by auto
      then show ?thesis unfolding r using le by blast
    qed
  qed
qed

text \<open>
  C2, as the code has it. For a non-empty distribution the selected label has the maximum
  value and is the first such label in the iteration order of the dict (not the least in
  lexicographic order); the confidence is its value. Over an all-zero distribution the
  first label of the dict is selected, with confidence 0.
\<close>

theorem dominant_first_maximum:
  assumes "d \<noteq> []" and "distinct (map fst d)"
  shows "(\<exists>pre k v post. d = pre @ (k, v) # post \<and>
            (\<forall>x\<in>set pre. snd x < v) \<and> (\<forall>x\<in>set post. snd x \<le> v) \<and>
            find_dominant_emotion d = Inr (k, v)) \<and>
         ((\<forall>x\<in>set d. snd x = 0) \<longrightarrow> find_dominant_emotion d = Inr (fst (hd d), 0))"
proof -
  obtain item items where d: "d = item # items" using assms(1) by (cases d) auto
  obtain pre post where split: "d = pre @ max_item item items # post"
    and lt: "\<forall>x\<in>set pre. snd x < snd (max_item item items)"
    and le: "\<forall>x\<in>set post. snd x \<le> snd (max_item item items)"
    using max_item_split [of item items] d by blast
  obtain k v where kv: "max_item item items = (k, v)" by (cases "max_item item items")
  have "(k, v) \<in> set d" using split kv by simp
  then have "map_of d k = Some v" using assms(2) by simp
  then have res: "find_dominant_emotion d = Inr (k, v)"
    using d kv by (simp add: find_dominant_emotion_def py_max_key_def dict_index_def)
  have first: "\<exists>pre k v post. d = pre @ (k, v) # post \<and>
            (\<forall>x\<in>set pre. snd x < v) \<and> (\<forall>x\<in>set post. snd x \<le> v) \<and>
            find_dominant_emotion d = Inr (k, v)"
    using split lt le res kv by auto
  have zero: "find_dominant_emotion d = Inr (fst (hd d), 0)" if z: "\<forall>x\<in>set d. snd x = 0"
  proof -
    have "pre = []"
    proof (rule ccontr)
      assume "pre \<noteq> []"
      then obtain p where p: "p \<in> set pre" by (cases pre) auto
      then have "p \<in> set d" "(k, v) \<in> set d" using split kv by auto
      then have "snd p = 0" "v = 0" using z by auto
      then show False using lt p kv by auto
    qed
    then have "hd d = (k, v)" using split kv by simp
    moreover have "v = 0" using z \<open>(k, v) \<in> set d\<close> by auto
    ultimately show ?thesis using res by simp
  qed
  show ?thesis using first zero by blast
qed

theorem dominant_first_maximum_witness:
  "[(''sadness'', 1/2), (''joy'', 1/2 :: real)] \<noteq> [] \<and>
   distinct (map fst [(''sadness'', 1/2), (''joy'', 1/2 :: real)]) \<and>
   (\<exists>pre k v post. [(''sadness'', 1/2), (''joy'', 1/2)] = pre @ (k, v) # post \<and>
      (\<forall>x\<in>set pre. snd x < v) \<and> (\<forall>x\<in>set post. snd x \<le> v) \<and>
      find_dominant_emotion [(''sadness'', 1/2), (''joy'', 1/2)] = Inr (k, v)) \<and>
   [(''sadness'', 0), (''joy'', 0 :: real)] \<noteq> [] \<and>
   distinct (map fst [(''sadness'', 0), (''joy'', 0 :: real)]) \<and>
   list_all (\<lambda>x. snd x = 0) [(''sadness'', 0), (''joy'', 0 :: real)] \<and>
   find_dominant_emotion [(''sadness'', 0), (''joy'', 0)] = Inr (''sadness'', 0)"
  using dominant_first_maximum [of "[(''sadness'', 1/2), (''joy'', 1/2)]"]
    dominant_first_maximum [of "[(''sadness'', 0), (''joy'', 0)]"]
  by simp

text \<open>
  Fusing sadness 1/2 and joy 1/2 (in this order) under an empty sentiment leaves a tie
  that the code gives to sadness, although joy is smaller in lexicographic order; the same
  happens over the all-zero distribution. On the audio path, valence 7/10, energy 1 and
  danceability 0 leave joy and anger tied at 7/20, and joy is selected although anger is
  smaller in lexicographic order.
\<close>

theorem dominant_lexicographic_counterexample:
  "find_dominant_emotion
     (combine_emotion_sentiment [(''sadness'', 1/2), (''joy'', 1/2)] []) =
     Inr (''sadness'', 1/2) \<and>
   map_of (combine_emotion_sentiment [(''sadness'', 1/2), (''joy'', 1/2)] []) ''joy'' =
     Some (1/2) \<and>
   ''joy'' < ''sadness'' \<and>
   find_dominant_emotion [(''sadness'', 0), (''joy'', 0)] = Inr (''sadness'', 0) \<and>
   analyze_audio_mood [(''valence'', 7/10), (''energy'', 1), (''danceability'', 0)] =
     Inr \<lparr>amr_emotions =
            [(''joy'', 7/20), (''sadness'', 3/20), (''anger'', 7/20), (''fear'', 3/20)],
          amr_dominant_emotion = ''joy'', amr_confidence = 7/20\<rparr> \<and>
   ''anger'' < ''joy''"
  by (simp add: find_dominant_emotion_def py_max_key_def dict_index_def
      combine_emotion_sentiment_def sentiment_adjust_def dict_get_def normalize_values_def
      sum_values_def analyze_audio_mood_def audio_features_to_emotions_def raw_emotions_def
      dict_set_def Let_def)

subsection \<open>Scoring a track\<close>

lemma card_matching_tags:
  "card (set xs \<inter> set ys) = length (remdups (filter (\<lambda>x. x \<in> set ys) xs))"
proof -
  have "set xs \<inter> set ys = set (filter (\<lambda>x. x \<in> set ys) xs)" by auto
  then show ?thesis by (simp only: length_remdups_card_conv)
qed

text \<open>
  C5. For a track whose audio features hold valence and energy, the score of
  \<^const>\<open>score_track\<close> is half the number of mood tags shared with the target tags
  plus the audio term (valence * 0.3 + energy * 0.2 for joy,
  (1 - valence) * 0.3 + (1 - energy) * 0.2 for sadness, 0 otherwise); with valence and
  energy between 0 and 1 it is not negative.
\<close>

theorem track_score_formula:
  assumes "map_of (audio_features td) ''valence'' = Some valence"
    and "map_of (audio_features td) ''energy'' = Some energy"
  shows "score_track dominant_emotion target_mood_tags td =
           Inr (real (card (set (mood_tags td) \<inter> set target_mood_tags)) * 0.5 +
                spec_audio_score dominant_emotion valence energy) \<and>
         (0 \<le> valence \<and> valence \<le> 1 \<and> 0 \<le> energy \<and> energy \<le> 1 \<longrightarrow>
            0 \<le> real (card (set (mood_tags td) \<inter> set target_mood_tags)) * 0.5 +
                spec_audio_score dominant_emotion valence energy)"
  using assms by (auto simp: score_track_def dict_index_def Let_def spec_audio_score_def)

theorem track_score_formula_witness:
  "map_of (audio_features (snd (hd load_music_features))) ''valence'' = Some (4/5) \<and>
   map_of (audio_features (snd (hd load_music_features))) ''energy'' = Some (3/10) \<and>
   (0::real) \<le> 4/5 \<and> (4/5::real) \<le> 1 \<and> (0::real) \<le> 3/10 \<and> (3/10::real) \<le> 1 \<and>
   score_track ''joy'' [''happy'', ''uplifting'', ''energetic''] (snd (hd load_music_features)) =
     Inr (3/10) \<and>
   score_track ''sadness'' [''melancholic'', ''introspective'', ''calm'']
     (snd (hd load_music_features)) = Inr (7/10) \<and>
   score_track ''anger'' [''calm'', ''peaceful'', ''meditative'']
     (snd (hd load_music_features)) = Inr 1"
proof -
  have v: "map_of (audio_features (snd (hd load_music_features))) ''valence'' = Some (4/5)"
    by (simp add: load_music_features_def)
  have e: "map_of (audio_features (snd (hd load_music_features))) ''energy'' = Some (3/10)"
    by (simp add: load_music_features_def)
  have m: "mood_tags (snd (hd load_music_features)) = [''calm'', ''peaceful'']"
    by (simp add: load_music_features_def)
  show ?thesis
    using v e
      track_score_formula [OF v e, of "''joy''" "[''happy'', ''uplifting'', ''energetic'']"]
      track_score_formula [OF v e, of "''sadness''"
        "[''melancholic'', ''introspective'', ''calm'']"]
      track_score_formula [OF v e, of "''anger''" "[''calm'', ''peaceful'', ''meditative'']"]
    by (simp add: m card_matching_tags spec_audio_score_def)
qed

subsection \<open>Scoring the catalogue\<close>

lemma score_track_eq:
  assumes "map_of (audio_features td) ''valence'' = Some valence"
    and "map_of (audio_features td) ''energy'' = Some energy"
  shows "score_track dominant tgt td =
           Inr (real (card (set (mood_tags td) \<inter> set tgt)) * 0.5 +
                (if dominant = ''joy'' then valence * 0.3 + energy * 0.2
                 else if dominant = ''sadness'' then (1 - valence) * 0.3 + (1 - energy) * 0.2
                 else 0))"
  using assms by (simp add: score_track_def dict_index_def Let_def)

lemma score_track_total:
  assumes "map_of (audio_features td) ''valence'' \<noteq> None"
    and "map_of (audio_features td) ''energy'' \<noteq> None"
  shows "\<exists>s. score_track dominant tgt td = Inr s"
proof -
  from assms obtain valence energy where
    "map_of (audio_features td) ''valence'' = Some valence"
    "map_of (audio_features td) ''energy'' = Some energy" by auto
  from score_track_eq [OF this] show ?thesis by blast
qed

lemma score_tracks_total:
  "has_audio mf \<Longrightarrow> \<exists>scored. score_tracks dominant tgt mf = Inr scored"
proof (induction mf)
  case Nil
  show ?case by simp
next
  case (Cons a mf)
  obtain tid td where a: "a = (tid, td)" by (cases a)
  from Cons.prems a obtain s where s: "score_track dominant tgt td = Inr s"
    using score_track_total [of td dominant tgt]
    by (auto simp: has_audio_def map_of_eq_None_iff)
  from Cons obtain scored where "score_tracks dominant tgt mf = Inr scored"
    by (auto simp: has_audio_def)
  then show ?case using a s by simp
qed

lemma score_tracks_ids:
  "score_tracks dominant tgt mf = Inr scored \<Longrightarrow> map track_id scored = map fst mf"
  by (induction mf arbitrary: scored) (auto split: sum.splits)

lemma length_score_tracks:
  "score_tracks dominant tgt mf = Inr scored \<Longrightarrow> length scored = length mf"
  using score_tracks_ids [of dominant tgt mf scored] by (metis length_map)

lemma py_max_key_total: "mood \<noteq> [] \<Longrightarrow> \<exists>dominant. py_max_key mood = Inr dominant"
  by (cases mood) (auto simp: py_max_key_def)

lemma recommendations_eq:
  assumes "py_max_key mood = Inr dominant"
    and "score_tracks dominant (dict_get emotion_to_mood_tags dominant [''neutral'']) mf = Inr scored"
  shows "get_mood_based_recommendations (Some mf) mood limit =
           Inr (slice_to (sort_by_score scored) limit)"
  using assms by (simp add: get_mood_based_recommendations_def)

lemma sorted_sort_by_score: "sorted_wrt (\<lambda>a b. score b \<le> score a) (sort_by_score xs)"
proof -
  have "sorted (map (\<lambda>x. - score x) (sort_by_score xs))"
    unfolding sort_by_score_def by (rule sorted_sort_key)
  then show ?thesis by (simp add: sorted_map)
qed

lemma sort_by_score_stable:
  "filter (\<lambda>x. score x = s) (sort_by_score xs) = filter (\<lambda>x. score x = s) xs"
  using sort_key_stable [of "\<lambda>x. - score x" "- s" xs] by (simp add: sort_by_score_def)

lemma slice_to_take: "\<exists>n. slice_to xs limit = take n xs"
  by (auto simp: slice_to_def)

subsection \<open>The sample catalogue\<close>

lemma sample_dominant_joy: "py_max_key [(''joy'', 1)] = Inr ''joy''"
  by (simp add: py_max_key_def)

lemma sample_scored_joy:
  "score_tracks ''joy'' (dict_get emotion_to_mood_tags ''joy'' [''neutral'']) load_music_features =
     Inr [\<lparr>track_id = ''sample_track_1'', rec_title = ''Calm Song'', rec_artist = ''Artist 1'',
            score = 3/10\<rparr>,
          \<lparr>track_id = ''sample_track_2'', rec_title = ''Energetic Song'',
            rec_artist = ''Artist 2'', score = 143/100\<rparr>]"
  by (simp add: load_music_features_def emotion_to_mood_tags_def dict_get_def score_track_def
      dict_index_def card_matching_tags Let_def)

lemma sample_has_audio: "has_audio load_music_features"
  by (simp add: has_audio_def load_music_features_def)

subsection \<open>Ranking\<close>

text \<open>
  C3, as the code has it. The list returned by
  \<^const>\<open>get_mood_based_recommendations\<close> is sorted by score, descending; the entries
  of one score stand in the order in which the catalogue holds their tracks (the sort is
  stable and has no second key), whatever their track ids.
\<close>

theorem recommendations_order:
  assumes "py_max_key mood = Inr dominant"
    and "score_tracks dominant (dict_get emotion_to_mood_tags dominant [''neutral'']) mf = Inr scored"
  shows "\<exists>rs. get_mood_based_recommendations (Some mf) mood limit = Inr rs \<and>
           sorted_wrt (\<lambda>a b. score b \<le> score a) rs \<and>
           (\<forall>s. prefix (filter (\<lambda>x. score x = s) rs) (filter (\<lambda>x. score x = s) scored)) \<and>
           map track_id scored = map fst mf"
proof -
  obtain n where n: "slice_to (sort_by_score scored) limit = take n (sort_by_score scored)"
    using slice_to_take by blast
  have "sorted_wrt (\<lambda>a b. score b \<le> score a) (take n (sort_by_score scored))"
    by (rule sorted_wrt_take) (rule sorted_sort_by_score)
  moreover have "prefix (filter (\<lambda>x. score x = s) (take n (sort_by_score scored)))
                   (filter (\<lambda>x. score x = s) scored)" for s
    using filter_mono_prefix [OF take_is_prefix, of "\<lambda>x. score x = s" n "sort_by_score scored"]
    by (simp add: sort_by_score_stable)
  ultimately show ?thesis
    using recommendations_eq [OF assms] n score_tracks_ids [OF assms(2)] by simp
qed

theorem recommendations_order_witness:
  "py_max_key [(''joy'', 1)] = Inr ''joy'' \<and>
   score_tracks ''joy'' (dict_get emotion_to_mood_tags ''joy'' [''neutral''])
     load_music_features =
     Inr [\<lparr>track_id = ''sample_track_1'', rec_title = ''Calm Song'', rec_artist = ''Artist 1'',
            score = 3/10\<rparr>,
          \<lparr>track_id = ''sample_track_2'', rec_title = ''Energetic Song'',
            rec_artist = ''Artist 2'', score = 143/100\<rparr>] \<and>
   (\<exists>rs. get_mood_based_recommendations (Some load_music_features) [(''joy'', 1)] 2 = Inr rs \<and>
      sorted_wrt (\<lambda>a b. score b \<le> score a) rs \<and>
      (\<forall>s. prefix (filter (\<lambda>x. score x = s) rs)
             (filter (\<lambda>x. score x = s)
                [\<lparr>track_id = ''sample_track_1'', rec_title = ''Calm Song'',
                   rec_artist = ''Artist 1'', score = 3/10\<rparr>,
                 \<lparr>track_id = ''sample_track_2'', rec_title = ''Energetic Song'',
                   rec_artist = ''Artist 2'', score = 143/100\<rparr>])) \<and>
      map track_id
        [\<lparr>track_id = ''sample_track_1'', rec_title = ''Calm Song'', rec_artist = ''Artist 1'',
           score = 3/10\<rparr>,
         \<lparr>track_id = ''sample_track_2'', rec_title = ''Energetic Song'',
           rec_artist = ''Artist 2'', score = 143/100\<rparr>] = map fst load_music_features)"
  using recommendations_order [OF sample_dominant_joy sample_scored_joy, of 2]
    sample_dominant_joy sample_scored_joy
  by blast

text \<open>
  The two sample tracks, held by the catalogue in the order \<open>sample_track_2\<close>,
  \<open>sample_track_1\<close>, both score 0 for a neutral mood and are returned in that order.
\<close>

theorem recommendations_order_counterexample:
  "get_mood_based_recommendations
     (Some [(''sample_track_2'', snd (load_music_features ! 1)),
            (''sample_track_1'', snd (load_music_features ! 0))]) [(''neutral'', 1)] 2 =
     Inr [\<lparr>track_id = ''sample_track_2'', rec_title = ''Energetic Song'',
            rec_artist = ''Artist 2'', score = 0\<rparr>,
          \<lparr>track_id = ''sample_track_1'', rec_title = ''Calm Song'', rec_artist = ''Artist 1'',
            score = 0\<rparr>] \<and>
   ''sample_track_1'' < ''sample_track_2''"
  by (simp add: get_mood_based_recommendations_def py_max_key_def load_music_features_def
      emotion_to_mood_tags_def dict_get_def score_track_def dict_index_def card_matching_tags
      sort_by_score_def slice_to_def Let_def)

text \<open>
  C6. For a positive limit, a non-empty mood and a catalogue whose tracks have valence and
  energy, \<^const>\<open>get_mood_based_recommendations\<close> returns exactly the minimum of the
  limit and the catalogue's size many entries, never more than the limit, and the whole
  sorted list when the limit is at least the catalogue's size.
\<close>

theorem recommendations_length:
  assumes "0 < limit" and "mood \<noteq> []" and "has_audio mf"
  shows "\<exists>dominant scored rs.
           py_max_key mood = Inr dominant \<and>
           score_tracks dominant (dict_get emotion_to_mood_tags dominant [''neutral'']) mf = Inr scored \<and>
           get_mood_based_recommendations (Some mf) mood limit = Inr rs \<and>
           length rs = min (nat limit) (length mf) \<and>
           int (length rs) \<le> limit \<and>
           (int (length mf) \<le> limit \<longrightarrow> rs = sort_by_score scored)"
proof -
  obtain dominant where dominant: "py_max_key mood = Inr dominant"
    using py_max_key_total [OF assms(2)] by blast
  obtain scored where
    sc: "score_tracks dominant (dict_get emotion_to_mood_tags dominant [''neutral'']) mf = Inr scored"
    using score_tracks_total [OF assms(3)] by blast
  have len: "length (sort_by_score scored) = length mf"
    using length_score_tracks [OF sc] by (simp add: sort_by_score_def)
  have "slice_to (sort_by_score scored) limit = take (nat limit) (sort_by_score scored)"
    using assms(1) by (simp add: slice_to_def)
  then show ?thesis
    using dominant sc recommendations_eq [OF dominant sc, of limit] len assms(1) by auto
qed

theorem recommendations_length_witness:
  "(0::int) < 1 \<and> (0::int) < 5 \<and> [(''joy'', 1::real)] \<noteq> [] \<and>
   has_audio load_music_features \<and> int (length load_music_features) \<le> 5 \<and>
   (\<exists>rs. get_mood_based_recommendations (Some load_music_features) [(''joy'', 1)] 1 = Inr rs \<and>
      length rs = min (nat 1) (length load_music_features) \<and> length rs = 1) \<and>
   (\<exists>scored rs.
      score_tracks ''joy'' (dict_get emotion_to_mood_tags ''joy'' [''neutral''])
        load_music_features = Inr scored \<and>
      get_mood_based_recommendations (Some load_music_features) [(''joy'', 1)] 5 = Inr rs \<and>
      length rs = 2 \<and> rs = sort_by_score scored)"
  using recommendations_length [of 1 "[(''joy'', 1)]" load_music_features]
    recommendations_length [of 5 "[(''joy'', 1)]" load_music_features]
    sample_has_audio
  by (auto simp: sample_dominant_joy load_music_features_def)

text \<open>
  C9, as the code has it. A limit of 0 or less is not rejected: the tracks are scored and
  sorted as for any limit and \<^const>\<open>recommend_music\<close> answers with the slice
  \<^verbatim>\<open>scored_tracks[:limit]\<close>, which is empty for limit 0 and the sorted list without
  its last \<open>- limit\<close> entries for a negative limit.
\<close>

theorem nonpositive_limit_not_rejected:
  assumes "req_limit request \<le> 0" and "req_mood_emotions request \<noteq> []" and "has_audio mf"
  shows "\<exists>dominant scored.
           py_max_key (req_mood_emotions request) = Inr dominant \<and>
           score_tracks dominant (dict_get emotion_to_mood_tags dominant [''neutral'']) mf = Inr scored \<and>
           recommend_music (Some mf) (Some emb) request =
             Inr \<lparr>resp_recommendations =
                    (if req_limit request = 0 then []
                     else take (length mf - nat (- req_limit request)) (sort_by_score scored)),
                  resp_model_version = ''1.0.0'',
                  resp_reasoning = map fst (req_mood_emotions request)\<rparr>"
proof -
  obtain dominant where dominant: "py_max_key (req_mood_emotions request) = Inr dominant"
    using py_max_key_total [OF assms(2)] by blast
  obtain scored where
    sc: "score_tracks dominant (dict_get emotion_to_mood_tags dominant [''neutral'']) mf = Inr scored"
    using score_tracks_total [OF assms(3)] by blast
  have len: "length (sort_by_score scored) = length mf"
    using length_score_tracks [OF sc] by (simp add: sort_by_score_def)
  have "slice_to (sort_by_score scored) (req_limit request) =
          (if req_limit request = 0 then []
           else take (length mf - nat (- req_limit request)) (sort_by_score scored))"
  proof (cases "req_limit request = 0")
    case True
    then show ?thesis by (simp add: slice_to_def)
  next
    case False
    then have neg: "req_limit request < 0" using assms(1) by simp
    then have "nat (int (length mf) + req_limit request) =
                 length mf - nat (- req_limit request)"
      by arith
    then show ?thesis using neg False by (simp add: slice_to_def len)
  qed
  then show ?thesis
    using dominant sc recommendations_eq [OF dominant sc, of "req_limit request"]
    by (simp add: recommend_music_def)
qed

theorem nonpositive_limit_not_rejected_witness:
  "req_limit \<lparr>req_user_id = ''u1'', req_mood_emotions = [(''joy'', 1)], req_limit = - 1\<rparr> \<le> 0 \<and>
   req_mood_emotions \<lparr>req_user_id = ''u1'', req_mood_emotions = [(''joy'', 1)], req_limit = - 1\<rparr> \<noteq> [] \<and>
   has_audio load_music_features \<and>
   (\<exists>scored.
      score_tracks ''joy'' (dict_get emotion_to_mood_tags ''joy'' [''neutral''])
        load_music_features = Inr scored \<and>
      recommend_music (Some load_music_features) (Some ())
        \<lparr>req_user_id = ''u1'', req_mood_emotions = [(''joy'', 1)], req_limit = - 1\<rparr> =
      Inr \<lparr>resp_recommendations = take 1 (sort_by_score scored),
           resp_model_version = ''1.0.0'', resp_reasoning = [''joy'']\<rparr>)"
  using nonpositive_limit_not_rejected
    [of "\<lparr>req_user_id = ''u1'', req_mood_emotions = [(''joy'', 1)], req_limit = - 1\<rparr>"
        load_music_features "()"]
    sample_has_audio
  by (auto simp: sample_dominant_joy load_music_features_def)

text \<open>
  On the sample catalogue with the embeddings computed from it, the limits -1 and 0 are
  answered with a response, of one and of no recommendation.
\<close>

theorem nonpositive_limit_counterexample:
  "compute_music_embeddings load_music_features =
     Inr ([[3/10, 4/5, 3/10, 1/5], [16/25, 9/10, 4/5, 9/10]],
          [''sample_track_1'', ''sample_track_2'']) \<and>
   recommend_music (Some load_music_features)
     (Some ([[3/10, 4/5, 3/10, 1/5], [16/25, 9/10, 4/5, 9/10 :: real]],
            [''sample_track_1'', ''sample_track_2'']))
     \<lparr>req_user_id = ''u1'', req_mood_emotions = [(''joy'', 1)], req_limit = - 1\<rparr> =
   Inr \<lparr>resp_recommendations =
          [\<lparr>track_id = ''sample_track_2'', rec_title = ''Energetic Song'',
            rec_artist = ''Artist 2'', score = 143/100\<rparr>],
        resp_model_version = ''1.0.0'', resp_reasoning = [''joy'']\<rparr> \<and>
   recommend_music (Some load_music_features)
     (Some ([[3/10, 4/5, 3/10, 1/5], [16/25, 9/10, 4/5, 9/10 :: real]],
            [''sample_track_1'', ''sample_track_2'']))
     \<lparr>req_user_id = ''u1'', req_mood_emotions = [(''joy'', 1)], req_limit = 0\<rparr> =
   Inr \<lparr>resp_recommendations = [],
        resp_model_version = ''1.0.0'', resp_reasoning = [''joy'']\<rparr>"
proof -
  have "compute_music_embeddings load_music_features =
     Inr ([[3/10, 4/5, 3/10, 1/5], [16/25, 9/10, 4/5, 9/10]],
          [''sample_track_1'', ''sample_track_2''])"
    by (simp add: load_music_features_def dict_index_def)
  then show ?thesis
    by (simp add: recommend_music_def get_mood_based_recommendations_def sample_dominant_joy
        sample_scored_joy sort_by_score_def slice_to_def)
qed

end
